theory Spec2Isabelle
  imports Complex_Main
begin

section \<open>Desafio_02.py: clients, accounts, ledger and transactions\<close>

text \<open>
  Amounts are exact numbers (\<open>real\<close>): the comparisons and the arithmetic of the
  source are taken over the reals, which contain every integer and every finite
  floating-point value the program can hold. Rounding, infinities and NaN are not
  modelled.

  A Python attribute \<open>obj.attr\<close> of class \<open>C\<close> is the record field \<open>C_attr\<close>; a method
  \<open>C.m\<close> is the function \<open>C_m\<close>. A method that mutates \<open>self\<close> takes the object and
  returns the new one; what it prints is returned as a list of \<open>saida\<close> values, one
  per \<open>print\<close> call.
\<close>

subsection \<open>Ledger records and printed lines\<close>

text \<open>
  The dict \<open>{"tipo": ..., "valor": ..., "data": ...}\<close> that
  \<open>Historico.adicionar_transacao\<close> appends.
\<close>

record registro =
  reg_tipo :: string
  reg_valor :: real
  reg_data :: string

text \<open>
  One constructor for each \<open>print\<close> of the module:
  \<^item> \<open>FalhaValorInvalido\<close>: "Operacao falhou! O valor informado e invalido."
  \<^item> \<open>FalhaSaldoInsuficiente\<close>: "Operacao falhou! Saldo insuficiente."
  \<^item> \<open>SaqueRealizado\<close>: "Saque realizado com sucesso!"
  \<^item> \<open>DepositoRealizado\<close>: "Deposito realizado com sucesso!"
  \<^item> \<open>FalhaExcedeLimite\<close>: "Operacao falhou! O valor do saque excede o limite."
  \<^item> \<open>FalhaMaximoSaques\<close>: "Operacao falhou! Numero maximo de saques excedido."
  \<^item> \<open>ClienteSemConta\<close>: "Cliente nao possui conta!"
  \<^item> \<open>ClienteNaoEncontrado\<close>: "Cliente nao encontrado!"
  \<^item> \<open>OpcaoInvalida\<close>: "Opcao invalida! Tente novamente."
  \<^item> \<open>ExtratoCabecalho\<close>, \<open>NenhumaMovimentacao\<close>, \<open>LinhaTransacao\<close>, \<open>LinhaSaldo\<close>,
    \<open>ExtratoRodape\<close>: the lines of the statement.
\<close>

datatype saida =
    FalhaValorInvalido
  | FalhaSaldoInsuficiente
  | SaqueRealizado
  | DepositoRealizado
  | FalhaExcedeLimite
  | FalhaMaximoSaques
  | ClienteSemConta
  | ClienteNaoEncontrado
  | OpcaoInvalida
  | ExtratoCabecalho
  | NenhumaMovimentacao
  | LinhaTransacao registro
  | LinhaSaldo real
  | ExtratoRodape

subsection \<open>Historico, Conta, ContaCorrente\<close>

record historico =
  Historico_transacoes :: "registro list"

definition Historico_init :: historico where
  "Historico_init = \<lparr>Historico_transacoes = []\<rparr>"

text \<open>\<open>Conta_cliente\<close> is the reference to the owning client object.\<close>

record conta =
  Conta_saldo :: real
  Conta_numero :: int
  Conta_agencia :: string
  Conta_cliente :: nat
  Conta_historico :: historico

record conta_corrente = conta +
  ContaCorrente_limite :: real
  ContaCorrente_limite_saques :: int

definition Conta_init :: "int \<Rightarrow> nat \<Rightarrow> conta" where
  "Conta_init numero cliente =
     \<lparr>Conta_saldo = 0, Conta_numero = numero, Conta_agencia = ''0001'',
      Conta_cliente = cliente, Conta_historico = Historico_init\<rparr>"

definition ContaCorrente_init :: "int \<Rightarrow> nat \<Rightarrow> real \<Rightarrow> int \<Rightarrow> conta_corrente" where
  "ContaCorrente_init numero cliente limite limite_saques =
     \<lparr>Conta_saldo = 0, Conta_numero = numero, Conta_agencia = ''0001'',
      Conta_cliente = cliente, Conta_historico = Historico_init,
      ContaCorrente_limite = limite, ContaCorrente_limite_saques = limite_saques\<rparr>"

text \<open>
  \<open>Conta.sacar\<close> and \<open>Conta.depositar\<close>: the returned triple is the boolean the method
  returns, what it prints, and the object afterwards. Both are inherited by
  \<open>ContaCorrente\<close>, hence the record scheme.
\<close>

definition Conta_sacar :: "'a conta_scheme \<Rightarrow> real \<Rightarrow> bool \<times> saida list \<times> 'a conta_scheme" where
  "Conta_sacar self valor =
     (if valor \<le> 0 then (False, [FalhaValorInvalido], self)
      else if valor > Conta_saldo self then (False, [FalhaSaldoInsuficiente], self)
      else (True, [SaqueRealizado], self\<lparr>Conta_saldo := Conta_saldo self - valor\<rparr>))"

definition Conta_depositar :: "'a conta_scheme \<Rightarrow> real \<Rightarrow> bool \<times> saida list \<times> 'a conta_scheme" where
  "Conta_depositar self valor =
     (if valor \<le> 0 then (False, [FalhaValorInvalido], self)
      else (True, [DepositoRealizado], self\<lparr>Conta_saldo := Conta_saldo self + valor\<rparr>))"

text \<open>
  \<open>ContaCorrente.sacar\<close>: \<open>numero_saques\<close> is
  \<open>sum(1 for t in self.historico.transacoes if t["tipo"] == "Saque")\<close>.
\<close>

definition ContaCorrente_sacar ::
  "'a conta_corrente_scheme \<Rightarrow> real \<Rightarrow> bool \<times> saida list \<times> 'a conta_corrente_scheme" where
  "ContaCorrente_sacar self valor =
     (let numero_saques =
            sum_list [1::int. t \<leftarrow> Historico_transacoes (Conta_historico self),
                              reg_tipo t = ''Saque'']
      in if valor > ContaCorrente_limite self then (False, [FalhaExcedeLimite], self)
         else if numero_saques \<ge> ContaCorrente_limite_saques self
           then (False, [FalhaMaximoSaques], self)
         else Conta_sacar self valor)"

subsection \<open>Transactions\<close>

datatype transacao = Saque real | Deposito real

fun Transacao_valor :: "transacao \<Rightarrow> real" where
  "Transacao_valor (Saque valor) = valor"
| "Transacao_valor (Deposito valor) = valor"

text \<open>\<open>transacao.__class__.__name__\<close>\<close>

fun class_name :: "transacao \<Rightarrow> string" where
  "class_name (Saque valor) = ''Saque''"
| "class_name (Deposito valor) = ''Deposito''"

text \<open>
  \<open>agora\<close> is the text \<open>datetime.now().strftime(...)\<close> gives at the moment of the call.
\<close>

definition Historico_adicionar_transacao :: "historico \<Rightarrow> transacao \<Rightarrow> string \<Rightarrow> historico" where
  "Historico_adicionar_transacao self transacao agora =
     self\<lparr>Historico_transacoes := Historico_transacoes self @
            [\<lparr>reg_tipo = class_name transacao, reg_valor = Transacao_valor transacao,
              reg_data = agora\<rparr>]\<rparr>"

text \<open>
  An account object is an instance of \<open>Conta\<close> or of \<open>ContaCorrente\<close>; \<open>obj_sacar\<close> and
  \<open>obj_depositar\<close> are the calls \<open>conta.sacar(valor)\<close> and \<open>conta.depositar(valor)\<close>
  resolved on the class of the object.
\<close>

datatype conta_obj = Conta conta | ContaCorrente conta_corrente

fun obj_saldo :: "conta_obj \<Rightarrow> real" where
  "obj_saldo (Conta c) = Conta_saldo c"
| "obj_saldo (ContaCorrente c) = Conta_saldo c"

fun obj_historico :: "conta_obj \<Rightarrow> historico" where
  "obj_historico (Conta c) = Conta_historico c"
| "obj_historico (ContaCorrente c) = Conta_historico c"

fun obj_sacar :: "conta_obj \<Rightarrow> real \<Rightarrow> bool \<times> saida list \<times> conta_obj" where
  "obj_sacar (Conta c) valor =
     (case Conta_sacar c valor of (ok, out, c') \<Rightarrow> (ok, out, Conta c'))"
| "obj_sacar (ContaCorrente c) valor =
     (case ContaCorrente_sacar c valor of (ok, out, c') \<Rightarrow> (ok, out, ContaCorrente c'))"

fun obj_depositar :: "conta_obj \<Rightarrow> real \<Rightarrow> bool \<times> saida list \<times> conta_obj" where
  "obj_depositar (Conta c) valor =
     (case Conta_depositar c valor of (ok, out, c') \<Rightarrow> (ok, out, Conta c'))"
| "obj_depositar (ContaCorrente c) valor =
     (case Conta_depositar c valor of (ok, out, c') \<Rightarrow> (ok, out, ContaCorrente c'))"

text \<open>\<open>conta.historico.adicionar_transacao(transacao)\<close>\<close>

fun obj_adicionar_transacao :: "conta_obj \<Rightarrow> transacao \<Rightarrow> string \<Rightarrow> conta_obj" where
  "obj_adicionar_transacao (Conta c) transacao agora =
     Conta (c\<lparr>Conta_historico :=
                Historico_adicionar_transacao (Conta_historico c) transacao agora\<rparr>)"
| "obj_adicionar_transacao (ContaCorrente c) transacao agora =
     ContaCorrente (c\<lparr>Conta_historico :=
                Historico_adicionar_transacao (Conta_historico c) transacao agora\<rparr>)"

text \<open>
  \<open>Saque.registrar\<close> and \<open>Deposito.registrar\<close>: the method returns nothing; the model
  returns what was printed and the account afterwards.
\<close>

fun Transacao_registrar :: "transacao \<Rightarrow> conta_obj \<Rightarrow> string \<Rightarrow> saida list \<times> conta_obj" where
  "Transacao_registrar (Saque v) conta agora =
     (case obj_sacar conta (Transacao_valor (Saque v)) of
        (ok, out, conta') \<Rightarrow>
          if ok then (out, obj_adicionar_transacao conta' (Saque v) agora)
          else (out, conta'))"
| "Transacao_registrar (Deposito v) conta agora =
     (case obj_depositar conta (Transacao_valor (Deposito v)) of
        (ok, out, conta') \<Rightarrow>
          if ok then (out, obj_adicionar_transacao conta' (Deposito v) agora)
          else (out, conta'))"

text \<open>\<open>Cliente.realizar_transacao\<close>: the client object itself is not changed.\<close>

definition Cliente_realizar_transacao ::
  "conta_obj \<Rightarrow> transacao \<Rightarrow> string \<Rightarrow> saida list \<times> conta_obj" where
  "Cliente_realizar_transacao conta transacao agora = Transacao_registrar transacao conta agora"

subsection \<open>Sequences of calls\<close>

text \<open>
  A direct method call on an account object, and the object after a sequence of such
  calls; \<open>trajetoria\<close> lists the object after each call of the sequence.
\<close>

datatype chamada = Sacar real | Depositar real

fun chamar :: "conta_obj \<Rightarrow> chamada \<Rightarrow> bool \<times> saida list \<times> conta_obj" where
  "chamar conta (Sacar valor) = obj_sacar conta valor"
| "chamar conta (Depositar valor) = obj_depositar conta valor"


text \<open>
  The boolean that the \<open>sacar\<close> or \<open>depositar\<close> call made by \<open>registrar\<close> returns on
  the account as it is before the call.
\<close>

fun operacao_sucesso :: "transacao \<Rightarrow> conta_obj \<Rightarrow> bool" where
  "operacao_sucesso (Saque v) conta = fst (obj_sacar conta v)"
| "operacao_sucesso (Deposito v) conta = fst (obj_depositar conta v)"

text \<open>
  A sequence of \<open>realizar_transacao\<close> calls on one account, each with the clock text of
  its moment: the account at the end, and the number of calls whose operation
  succeeded.
\<close>

fun realizar_transacoes :: "conta_obj \<Rightarrow> (transacao \<times> string) list \<Rightarrow> conta_obj" where
  "realizar_transacoes conta [] = conta"
| "realizar_transacoes conta ((transacao, agora) # ts) =
     realizar_transacoes (snd (Cliente_realizar_transacao conta transacao agora)) ts"

fun operacoes_com_sucesso :: "conta_obj \<Rightarrow> (transacao \<times> string) list \<Rightarrow> nat" where
  "operacoes_com_sucesso conta [] = 0"
| "operacoes_com_sucesso conta ((transacao, agora) # ts) =
     (if operacao_sucesso transacao conta then 1 else 0) +
     operacoes_com_sucesso (snd (Cliente_realizar_transacao conta transacao agora)) ts"


text \<open>The \<open>Saque\<close> records of a ledger.\<close>

definition registros_saque :: "conta_obj \<Rightarrow> registro list" where
  "registros_saque conta =
     filter (\<lambda>t. reg_tipo t = ''Saque'') (Historico_transacoes (obj_historico conta))"

text \<open>
  The account objects a program can hold: a new \<open>Conta\<close> or \<open>ContaCorrente\<close>, and
  whatever a method call or a transaction makes of one.
\<close>

inductive alcancavel :: "conta_obj \<Rightarrow> bool" where
  nova_Conta: "alcancavel (Conta (Conta_init numero cliente))"
| nova_ContaCorrente:
    "alcancavel (ContaCorrente (ContaCorrente_init numero cliente limite limite_saques))"
| apos_chamada: "alcancavel conta \<Longrightarrow> alcancavel (snd (snd (chamar conta x)))"
| apos_transacao:
    "alcancavel conta \<Longrightarrow> alcancavel (snd (Cliente_realizar_transacao conta transacao agora))"


section \<open>The interpreter's part\<close>

text \<open>
  What the programs take from the Python runtime. \<open>input\<close> reads the next line of
  standard input and raises \<open>EOFError\<close> when there is none (the prompt it writes is
  left out of the output). \<open>float\<close>, the clock and the \<open>:.2f\<close> format are parameters,
  gathered in \<open>ambiente\<close>: \<open>amb_float s\<close> is \<open>None\<close> where \<open>float(s)\<close> raises
  \<open>ValueError\<close>, \<open>amb_agora k\<close> is the formatted clock at its \<open>k\<close>-th reading.
\<close>

datatype py_error = EOFError | ValueError | NameError string

definition input :: "string list \<Rightarrow> py_error + (string \<times> string list)" where
  "input stdin = (case stdin of [] \<Rightarrow> Inl EOFError | linha # resto \<Rightarrow> Inr (linha, resto))"

record ambiente =
  amb_float :: "string \<Rightarrow> real option"
  amb_agora :: "nat \<Rightarrow> string"
  amb_formato_2f :: "real \<Rightarrow> string"

text \<open>An environment to run the programs on: it reads the text 600 as the number 600.\<close>

definition amb_exemplo :: ambiente where
  "amb_exemplo =
     \<lparr>amb_float = (\<lambda>s. if s = ''600'' then Some 600 else None),
      amb_agora = (\<lambda>k. ''04-11-2026 12:00:00''),
      amb_formato_2f = (\<lambda>x. ''600.00'')\<rparr>"

section \<open>Desafio_02.py: the menu loop\<close>

subsection \<open>Clients and the state of the process\<close>

text \<open>
  \<open>Cliente_contas\<close> holds references to account objects; the objects themselves live in
  \<open>proc_objetos\<close>, so that a change made through one reference is seen through every
  other.
\<close>

record cliente =
  Cliente_endereco :: string
  Cliente_contas :: "nat list"

record pessoa_fisica = cliente +
  PessoaFisica_nome :: string
  PessoaFisica_data_nascimento :: string
  PessoaFisica_cpf :: string

definition Cliente_adicionar_conta :: "'a cliente_scheme \<Rightarrow> nat \<Rightarrow> 'a cliente_scheme" where
  "Cliente_adicionar_conta self conta = self\<lparr>Cliente_contas := Cliente_contas self @ [conta]\<rparr>"

text \<open>
  The process outside the local variables of \<open>main\<close>: the account objects, the lines
  still to be read, the lines printed so far, and how many transactions have been
  carried out (the index of the next clock reading).
\<close>

record processo =
  proc_objetos :: "nat \<Rightarrow> conta_obj"
  proc_stdin :: "string list"
  proc_stdout :: "saida list"
  proc_relogio :: nat

definition imprimir :: "saida list \<Rightarrow> processo \<Rightarrow> processo" where
  "imprimir linhas p = p\<lparr>proc_stdout := proc_stdout p @ linhas\<rparr>"

definition ler_linha :: "processo \<Rightarrow> py_error + (string \<times> processo)" where
  "ler_linha p =
     (case input (proc_stdin p) of
        Inl e \<Rightarrow> Inl e
      | Inr (linha, resto) \<Rightarrow> Inr (linha, p\<lparr>proc_stdin := resto\<rparr>))"

definition mostrar_menu :: "processo \<Rightarrow> py_error + (string \<times> processo)" where
  "mostrar_menu p = ler_linha p"

definition buscar_cliente_por_cpf :: "string \<Rightarrow> pessoa_fisica list \<Rightarrow> pessoa_fisica option" where
  "buscar_cliente_por_cpf cpf clientes = find (\<lambda>cliente. PessoaFisica_cpf cliente = cpf) clientes"

definition recuperar_primeira_conta :: "pessoa_fisica \<Rightarrow> processo \<Rightarrow> nat option \<times> processo" where
  "recuperar_primeira_conta cliente p =
     (case Cliente_contas cliente of
        [] \<Rightarrow> (None, imprimir [ClienteSemConta] p)
      | conta # outras \<Rightarrow> (Some conta, p))"

text \<open>\<open>cliente.realizar_transacao(conta, transacao)\<close> on the object \<open>conta\<close> refers to.\<close>

definition realizar_no_processo :: "ambiente \<Rightarrow> nat \<Rightarrow> transacao \<Rightarrow> processo \<Rightarrow> processo" where
  "realizar_no_processo amb conta transacao p =
     (case Cliente_realizar_transacao (proc_objetos p conta) transacao
             (amb_agora amb (proc_relogio p)) of
        (out, conta') \<Rightarrow>
          (imprimir out p)\<lparr>proc_objetos := (proc_objetos p)(conta := conta'),
                            proc_relogio := Suc (proc_relogio p)\<rparr>)"

definition processar_deposito ::
  "ambiente \<Rightarrow> pessoa_fisica list \<Rightarrow> processo \<Rightarrow> py_error + processo" where
  "processar_deposito amb clientes p =
     (case ler_linha p of
        Inl e \<Rightarrow> Inl e
      | Inr (cpf, p1) \<Rightarrow>
          (case buscar_cliente_por_cpf cpf clientes of
             None \<Rightarrow> Inr (imprimir [ClienteNaoEncontrado] p1)
           | Some cliente \<Rightarrow>
               (case ler_linha p1 of
                  Inl e \<Rightarrow> Inl e
                | Inr (texto, p2) \<Rightarrow>
                    (case amb_float amb texto of
                       None \<Rightarrow> Inl ValueError
                     | Some valor \<Rightarrow>
                         (case recuperar_primeira_conta cliente p2 of
                            (None, p3) \<Rightarrow> Inr p3
                          | (Some conta, p3) \<Rightarrow>
                              Inr (realizar_no_processo amb conta (Deposito valor) p3))))))"

definition processar_saque ::
  "ambiente \<Rightarrow> pessoa_fisica list \<Rightarrow> processo \<Rightarrow> py_error + processo" where
  "processar_saque amb clientes p =
     (case ler_linha p of
        Inl e \<Rightarrow> Inl e
      | Inr (cpf, p1) \<Rightarrow>
          (case buscar_cliente_por_cpf cpf clientes of
             None \<Rightarrow> Inr (imprimir [ClienteNaoEncontrado] p1)
           | Some cliente \<Rightarrow>
               (case ler_linha p1 of
                  Inl e \<Rightarrow> Inl e
                | Inr (texto, p2) \<Rightarrow>
                    (case amb_float amb texto of
                       None \<Rightarrow> Inl ValueError
                     | Some valor \<Rightarrow>
                         (case recuperar_primeira_conta cliente p2 of
                            (None, p3) \<Rightarrow> Inr p3
                          | (Some conta, p3) \<Rightarrow>
                              Inr (realizar_no_processo amb conta (Saque valor) p3))))))"

definition exibir_extrato :: "pessoa_fisica list \<Rightarrow> processo \<Rightarrow> py_error + processo" where
  "exibir_extrato clientes p =
     (case ler_linha p of
        Inl e \<Rightarrow> Inl e
      | Inr (cpf, p1) \<Rightarrow>
          (case buscar_cliente_por_cpf cpf clientes of
             None \<Rightarrow> Inr (imprimir [ClienteNaoEncontrado] p1)
           | Some cliente \<Rightarrow>
               (case recuperar_primeira_conta cliente p1 of
                  (None, p2) \<Rightarrow> Inr p2
                | (Some conta, p2) \<Rightarrow>
                    (let transacoes = Historico_transacoes (obj_historico (proc_objetos p2 conta))
                     in Inr (imprimir
                          ([ExtratoCabecalho] @
                           (if transacoes = [] then [NenhumaMovimentacao]
                            else map LinhaTransacao transacoes) @
                           [LinhaSaldo (obj_saldo (proc_objetos p2 conta)), ExtratoRodape])
                          p2)))))"

subsection \<open>Names and the loop\<close>

text \<open>
  The names bound at the top level of the module, in the order of the file: the
  imports, the classes and the functions. A call \<open>f(...)\<close> of a global name first looks
  the name up: one bound neither here nor among the builtins raises \<open>NameError\<close>.
  \<open>main\<close> calls three global names, none of them a builtin, for which the file has no
  \<open>def\<close>; what such a function would do with its arguments, with the local lists of
  \<open>main\<close> and with the process if the name were bound is the parameter \<open>corpos\<close>.
\<close>

definition module_globals :: "string list" where
  "module_globals =
     [''textwrap'', ''ABC'', ''abstractmethod'', ''datetime'',
      ''Cliente'', ''PessoaFisica'', ''Conta'', ''ContaCorrente'', ''Historico'',
      ''Transacao'', ''Saque'', ''Deposito'',
      ''mostrar_menu'', ''buscar_cliente_por_cpf'', ''recuperar_primeira_conta'',
      ''processar_deposito'', ''processar_saque'', ''exibir_extrato'', ''main'']"

type_synonym locais = "pessoa_fisica list \<times> nat list"

type_synonym corpos =
  "string \<Rightarrow> int list \<Rightarrow> locais \<times> processo \<Rightarrow> py_error + (locais \<times> processo)"

definition chamar_global ::
  "corpos \<Rightarrow> string \<Rightarrow> int list \<Rightarrow> locais \<times> processo \<Rightarrow> py_error + (locais \<times> processo)" where
  "chamar_global corpos nome args st =
     (if nome \<in> set module_globals then corpos nome args st else Inl (NameError nome))"

text \<open>
  One pass through the body of \<open>while True\<close> in \<open>main\<close>: an exception, or whether the
  loop goes on (\<open>False\<close> after \<open>break\<close>) with the local lists and the process.
\<close>

definition main_passo ::
  "ambiente \<Rightarrow> corpos \<Rightarrow> locais \<Rightarrow> processo \<Rightarrow> py_error + (bool \<times> locais \<times> processo)" where
  "main_passo amb corpos ls p =
     (case ls of (clientes, contas) \<Rightarrow>
      (case mostrar_menu p of
        Inl e \<Rightarrow> Inl e
      | Inr (opcao, p1) \<Rightarrow>
          if opcao = ''d'' then
            (case processar_deposito amb clientes p1 of
               Inl e \<Rightarrow> Inl e | Inr p2 \<Rightarrow> Inr (True, ls, p2))
          else if opcao = ''s'' then
            (case processar_saque amb clientes p1 of
               Inl e \<Rightarrow> Inl e | Inr p2 \<Rightarrow> Inr (True, ls, p2))
          else if opcao = ''e'' then
            (case exibir_extrato clientes p1 of
               Inl e \<Rightarrow> Inl e | Inr p2 \<Rightarrow> Inr (True, ls, p2))
          else if opcao = ''nu'' then
            (case chamar_global corpos ''criar_cliente'' [] (ls, p1) of
               Inl e \<Rightarrow> Inl e | Inr (ls', p2) \<Rightarrow> Inr (True, ls', p2))
          else if opcao = ''nc'' then
            (let numero_conta = int (length contas) + 1
             in case chamar_global corpos ''criar_conta'' [numero_conta] (ls, p1) of
                  Inl e \<Rightarrow> Inl e | Inr (ls', p2) \<Rightarrow> Inr (True, ls', p2))
          else if opcao = ''lc'' then
            (case chamar_global corpos ''listar_contas'' [] (ls, p1) of
               Inl e \<Rightarrow> Inl e | Inr (ls', p2) \<Rightarrow> Inr (True, ls', p2))
          else if opcao = ''q'' then Inr (False, ls, p1)
          else Inr (True, ls, imprimir [OpcaoInvalida] p1)))"

text \<open>Every pass of the loop that goes on has consumed a line of input.\<close>

lemma ler_linha_consome:
  "ler_linha p = Inr (linha, p') \<Longrightarrow> Suc (length (proc_stdin p')) = length (proc_stdin p)"
  by (auto simp: ler_linha_def input_def split: list.splits)

lemma imprimir_stdin [simp]: "proc_stdin (imprimir linhas p) = proc_stdin p"
  by (simp add: imprimir_def)

lemma recuperar_primeira_conta_stdin:
  "recuperar_primeira_conta cliente p = (r, p') \<Longrightarrow> proc_stdin p' = proc_stdin p"
  by (auto simp: recuperar_primeira_conta_def split: list.splits)

lemma realizar_no_processo_stdin [simp]:
  "proc_stdin (realizar_no_processo amb conta transacao p) = proc_stdin p"
  by (simp add: realizar_no_processo_def split: prod.splits)

lemma processar_deposito_stdin:
  "processar_deposito amb clientes p = Inr p' \<Longrightarrow> length (proc_stdin p') \<le> length (proc_stdin p)"
  by (auto simp: processar_deposito_def
      split: sum.splits option.splits prod.splits
      dest!: ler_linha_consome recuperar_primeira_conta_stdin)

lemma processar_saque_stdin:
  "processar_saque amb clientes p = Inr p' \<Longrightarrow> length (proc_stdin p') \<le> length (proc_stdin p)"
  by (auto simp: processar_saque_def
      split: sum.splits option.splits prod.splits
      dest!: ler_linha_consome recuperar_primeira_conta_stdin)

lemma exibir_extrato_stdin:
  "exibir_extrato clientes p = Inr p' \<Longrightarrow> length (proc_stdin p') \<le> length (proc_stdin p)"
  by (auto simp: exibir_extrato_def Let_def
      split: sum.splits option.splits prod.splits
      dest!: ler_linha_consome recuperar_primeira_conta_stdin)

lemma chamar_global_criar_cliente:
  "chamar_global corpos ''criar_cliente'' args st = Inl (NameError ''criar_cliente'')"
  by (simp add: chamar_global_def module_globals_def)

lemma chamar_global_criar_conta:
  "chamar_global corpos ''criar_conta'' args st = Inl (NameError ''criar_conta'')"
  by (simp add: chamar_global_def module_globals_def)

lemma chamar_global_listar_contas:
  "chamar_global corpos ''listar_contas'' args st = Inl (NameError ''listar_contas'')"
  by (simp add: chamar_global_def module_globals_def)

lemma main_passo_consome:
  assumes "main_passo amb corpos ls p = Inr (True, ls', p')"
  shows "length (proc_stdin p') < length (proc_stdin p)"
proof -
  obtain clientes contas where ls: "ls = (clientes, contas)" by (cases ls)
  from assms obtain opcao p1 where m: "mostrar_menu p = Inr (opcao, p1)"
    by (auto simp: main_passo_def ls split: sum.splits)
  then have c: "Suc (length (proc_stdin p1)) = length (proc_stdin p)"
    by (simp add: mostrar_menu_def ler_linha_consome)
  from assms m have "length (proc_stdin p') \<le> length (proc_stdin p1)"
    by (auto simp: main_passo_def ls Let_def chamar_global_criar_cliente
        chamar_global_criar_conta chamar_global_listar_contas
        split: if_splits sum.splits
        dest: processar_deposito_stdin processar_saque_stdin exibir_extrato_stdin)
  with c show ?thesis by simp
qed

text \<open>
  The loop of \<open>main\<close>: every pass reads a line, so on a finite standard input it
  ends, with \<open>break\<close> or with an exception (\<open>EOFError\<close> at the latest).
\<close>

function main_loop ::
  "ambiente \<Rightarrow> corpos \<Rightarrow> locais \<Rightarrow> processo \<Rightarrow> py_error + (locais \<times> processo)" where
  "main_loop amb corpos ls p =
     (case main_passo amb corpos ls p of
        Inl e \<Rightarrow> Inl e
      | Inr (continua, ls', p') \<Rightarrow>
          if continua then main_loop amb corpos ls' p' else Inr (ls', p'))"
  by pat_completeness auto
termination
  by (relation "measure (\<lambda>(amb, corpos, ls, p). length (proc_stdin p))")
     (auto dest: main_passo_consome)

definition main :: "ambiente \<Rightarrow> corpos \<Rightarrow> processo \<Rightarrow> py_error + (locais \<times> processo)" where
  "main amb corpos p = main_loop amb corpos ([], []) p"

section \<open>desadio.py: the procedural program\<close>

text \<open>
  The lines the procedural program prints:
  \<^item> \<open>AvisoDepositoRealizado\<close>: "Deposito realizado com sucesso!"
  \<^item> \<open>AvisoValorInvalido\<close>: "Operacao falhou! O valor informado e invalido."
  \<^item> \<open>AvisoSaldoInsuficiente\<close>: "Operacao falhou! Saldo insuficiente."
  \<^item> \<open>AvisoExcedeLimite\<close>: "Operacao falhou! O valor do saque excede o limite."
  \<^item> \<open>AvisoMaximoSaques\<close>: "Operacao falhou! Numero maximo de saques excedido."
  \<^item> \<open>AvisoSaqueRealizado\<close>: "Saque realizado com sucesso!"
\<close>

datatype aviso =
    AvisoDepositoRealizado
  | AvisoValorInvalido
  | AvisoSaldoInsuficiente
  | AvisoExcedeLimite
  | AvisoMaximoSaques
  | AvisoSaqueRealizado

text \<open>
  \<open>depositar(saldo, extrato)\<close>: the result is the returned tuple, what was printed and
  the rest of standard input. \<open>CHR 0xF3\<close> is the o-acute of the statement line,
  \<open>CHR 0x0A\<close> the newline.
\<close>

definition depositar ::
  "ambiente \<Rightarrow> string list \<Rightarrow> real \<Rightarrow> string \<Rightarrow>
     py_error + ((real \<times> string) \<times> aviso list \<times> string list)" where
  "depositar amb stdin saldo extrato =
     (case input stdin of
        Inl e \<Rightarrow> Inl e
      | Inr (linha, stdin') \<Rightarrow>
          (case amb_float amb linha of
             None \<Rightarrow> Inl ValueError
           | Some valor \<Rightarrow>
               if valor > 0
               then Inr ((saldo + valor,
                          extrato @ ''Dep'' @ [CHR 0xF3] @ ''sito: R$ '' @
                            amb_formato_2f amb valor @ [CHR 0x0A]),
                         [AvisoDepositoRealizado], stdin')
               else Inr ((saldo, extrato), [AvisoValorInvalido], stdin')))"

text \<open>\<open>sacar(saldo, extrato, numero_saques, limite, LIMITE_SAQUES)\<close>\<close>

definition sacar ::
  "ambiente \<Rightarrow> string list \<Rightarrow> real \<Rightarrow> string \<Rightarrow> int \<Rightarrow> real \<Rightarrow> int \<Rightarrow>
     py_error + ((real \<times> string \<times> int) \<times> aviso list \<times> string list)" where
  "sacar amb stdin saldo extrato numero_saques limite LIMITE_SAQUES =
     (case input stdin of
        Inl e \<Rightarrow> Inl e
      | Inr (linha, stdin') \<Rightarrow>
          (case amb_float amb linha of
             None \<Rightarrow> Inl ValueError
           | Some valor \<Rightarrow>
               (let excedeu_saldo = valor > saldo;
                    excedeu_limite = valor > limite;
                    excedeu_saques = numero_saques \<ge> LIMITE_SAQUES
                in if excedeu_saldo
                   then Inr ((saldo, extrato, numero_saques), [AvisoSaldoInsuficiente], stdin')
                   else if excedeu_limite
                   then Inr ((saldo, extrato, numero_saques), [AvisoExcedeLimite], stdin')
                   else if excedeu_saques
                   then Inr ((saldo, extrato, numero_saques), [AvisoMaximoSaques], stdin')
                   else if valor > 0
                   then Inr ((saldo - valor,
                              extrato @ ''Saque: R$ '' @ amb_formato_2f amb valor @ [CHR 0x0A],
                              numero_saques + 1),
                             [AvisoSaqueRealizado], stdin')
                   else Inr ((saldo, extrato, numero_saques), [AvisoValorInvalido], stdin'))))"

section \<open>Properties of the accounts\<close>

subsection \<open>The balance is never negative\<close>

lemma obj_sacar_saldo:
  "0 \<le> obj_saldo conta \<Longrightarrow> 0 \<le> obj_saldo (snd (snd (obj_sacar conta valor)))"
  by (cases conta) (simp_all add: Conta_sacar_def ContaCorrente_sacar_def Let_def)

lemma obj_depositar_saldo:
  "0 \<le> obj_saldo conta \<Longrightarrow> 0 \<le> obj_saldo (snd (snd (obj_depositar conta valor)))"
  by (cases conta) (simp_all add: Conta_depositar_def)

lemma chamar_saldo:
  "0 \<le> obj_saldo conta \<Longrightarrow> 0 \<le> obj_saldo (snd (snd (chamar conta x)))"
  by (cases x) (simp_all add: obj_sacar_saldo obj_depositar_saldo)

lemma obj_adicionar_transacao_saldo [simp]:
  "obj_saldo (obj_adicionar_transacao conta transacao agora) = obj_saldo conta"
  by (cases conta) simp_all

lemma registrar_saldo:
  "0 \<le> obj_saldo conta \<Longrightarrow> 0 \<le> obj_saldo (snd (Transacao_registrar transacao conta agora))"
proof (cases transacao)
  case (Saque v)
  assume "0 \<le> obj_saldo conta"
  then have "0 \<le> obj_saldo (snd (snd (obj_sacar conta v)))" by (rule obj_sacar_saldo)
  with Saque show ?thesis by (auto split: prod.splits)
next
  case (Deposito v)
  assume "0 \<le> obj_saldo conta"
  then have "0 \<le> obj_saldo (snd (snd (obj_depositar conta v)))" by (rule obj_depositar_saldo)
  with Deposito show ?thesis by (auto split: prod.splits)
qed

lemma alcancavel_saldo: "alcancavel conta \<Longrightarrow> 0 \<le> obj_saldo conta"
proof (induction rule: alcancavel.induct)
  case (nova_Conta numero cliente)
  show ?case by (simp add: Conta_init_def)
next
  case (nova_ContaCorrente numero cliente limite limite_saques)
  show ?case by (simp add: ContaCorrente_init_def)
next
  case (apos_chamada conta x)
  then show ?case by (simp add: chamar_saldo)
next
  case (apos_transacao conta transacao agora)
  then show ?case by (simp add: Cliente_realizar_transacao_def registrar_saldo)
qed



subsection \<open>The contracts of \<open>Conta.sacar\<close> and \<open>Conta.depositar\<close>\<close>







subsection \<open>The ledger follows the operations\<close>

lemma numero_saques_length:
  "sum_list [1::int. t \<leftarrow> ts, reg_tipo t = ''Saque''] =
     int (length (filter (\<lambda>t. reg_tipo t = ''Saque'') ts))"
  by (induction ts) simp_all

lemma obj_sacar_historico [simp]:
  "obj_historico (snd (snd (obj_sacar conta valor))) = obj_historico conta"
  by (cases conta) (simp_all add: Conta_sacar_def ContaCorrente_sacar_def Let_def)

lemma obj_depositar_historico [simp]:
  "obj_historico (snd (snd (obj_depositar conta valor))) = obj_historico conta"
  by (cases conta) (simp_all add: Conta_depositar_def)

lemma obj_sacar_falha:
  "\<not> fst (obj_sacar conta valor) \<Longrightarrow> snd (snd (obj_sacar conta valor)) = conta"
  by (cases conta) (simp_all add: Conta_sacar_def ContaCorrente_sacar_def Let_def split: if_splits)

lemma obj_depositar_falha:
  "\<not> fst (obj_depositar conta valor) \<Longrightarrow> snd (snd (obj_depositar conta valor)) = conta"
  by (cases conta) (simp_all add: Conta_depositar_def split: if_splits)

lemma obj_sacar_sucesso:
  "fst (obj_sacar conta valor) \<Longrightarrow>
     obj_saldo (snd (snd (obj_sacar conta valor))) = obj_saldo conta - valor"
  by (cases conta) (simp_all add: Conta_sacar_def ContaCorrente_sacar_def Let_def split: if_splits)

lemma obj_depositar_sucesso:
  "fst (obj_depositar conta valor) \<Longrightarrow>
     obj_saldo (snd (snd (obj_depositar conta valor))) = obj_saldo conta + valor"
  by (cases conta) (simp_all add: Conta_depositar_def split: if_splits)

lemma obj_adicionar_transacao_historico [simp]:
  "Historico_transacoes (obj_historico (obj_adicionar_transacao conta transacao agora)) =
     Historico_transacoes (obj_historico conta) @
       [\<lparr>reg_tipo = class_name transacao, reg_valor = Transacao_valor transacao,
         reg_data = agora\<rparr>]"
  by (cases conta) (simp_all add: Historico_adicionar_transacao_def)

lemma registrar_conta:
  "snd (Transacao_registrar transacao conta agora) =
     (if operacao_sucesso transacao conta
      then obj_adicionar_transacao
             (snd (snd (case transacao of Saque v \<Rightarrow> obj_sacar conta v
                                       | Deposito v \<Rightarrow> obj_depositar conta v)))
             transacao agora
      else conta)"
proof (cases transacao)
  case (Saque v)
  then show ?thesis
    using obj_sacar_falha [of conta v] by (auto split: prod.splits)
next
  case (Deposito v)
  then show ?thesis
    using obj_depositar_falha [of conta v] by (auto split: prod.splits)
qed

lemma registrar_transacoes:
  "Historico_transacoes (obj_historico (snd (Transacao_registrar transacao conta agora))) =
     (if operacao_sucesso transacao conta
      then Historico_transacoes (obj_historico conta) @
             [\<lparr>reg_tipo = class_name transacao, reg_valor = Transacao_valor transacao,
               reg_data = agora\<rparr>]
      else Historico_transacoes (obj_historico conta))"
  unfolding registrar_conta by (cases transacao) simp_all

lemma realizar_transacoes_length:
  "length (Historico_transacoes (obj_historico (realizar_transacoes conta ts))) =
     length (Historico_transacoes (obj_historico conta)) + operacoes_com_sucesso conta ts"
proof (induction ts arbitrary: conta)
  case Nil
  show ?case by simp
next
  case (Cons x ts)
  obtain transacao agora where x: "x = (transacao, agora)" by (cases x)
  show ?case
    by (simp add: x Cons.IH Cliente_realizar_transacao_def registrar_transacoes)
qed

text \<open>
  C2. A transaction applied through \<open>registrar\<close> leaves the ledger with exactly one more
  record, its own, when the \<open>sacar\<close> or \<open>depositar\<close> call it makes returns \<open>True\<close>, and
  leaves the ledger as it was when the call returns \<open>False\<close>: the record is appended if
  and only if the operation succeeded. After any sequence of transactions the ledger
  has grown by the number of successful operations; on a new account of either class
  the number of records is the number of successful operations.
\<close>

theorem registro_sse_sucesso:
  "(Historico_transacoes (obj_historico (snd (Transacao_registrar transacao conta agora))) =
      Historico_transacoes (obj_historico conta) @
        [\<lparr>reg_tipo = class_name transacao, reg_valor = Transacao_valor transacao,
          reg_data = agora\<rparr>])
     = operacao_sucesso transacao conta \<and>
   (Historico_transacoes (obj_historico (snd (Transacao_registrar transacao conta agora))) =
      Historico_transacoes (obj_historico conta))
     = (\<not> operacao_sucesso transacao conta) \<and>
   length (Historico_transacoes (obj_historico (realizar_transacoes conta ts))) =
     length (Historico_transacoes (obj_historico conta)) + operacoes_com_sucesso conta ts \<and>
   length (Historico_transacoes (obj_historico
       (realizar_transacoes (Conta (Conta_init numero cliente)) ts))) =
     operacoes_com_sucesso (Conta (Conta_init numero cliente)) ts \<and>
   length (Historico_transacoes (obj_historico
       (realizar_transacoes
          (ContaCorrente (ContaCorrente_init numero cliente limite limite_saques)) ts))) =
     operacoes_com_sucesso
       (ContaCorrente (ContaCorrente_init numero cliente limite limite_saques)) ts"
  by (simp add: registrar_transacoes realizar_transacoes_length Conta_init_def
      ContaCorrente_init_def Historico_init_def)

text \<open>
  C8. When the \<open>sacar\<close> or \<open>depositar\<close> call of a transaction returns \<open>False\<close>, the account
  after \<open>registrar\<close> is the account before it: balance, ledger and every other field.
  When it returns \<open>True\<close>, both changes are made: the balance moves by the amount and
  the record is appended.
\<close>

theorem falha_nada_muda:
  "(\<not> operacao_sucesso transacao conta \<longrightarrow>
      snd (Transacao_registrar transacao conta agora) = conta) \<and>
   (operacao_sucesso transacao conta \<longrightarrow>
      obj_saldo (snd (Transacao_registrar transacao conta agora)) =
        (case transacao of Saque v \<Rightarrow> obj_saldo conta - v
                         | Deposito v \<Rightarrow> obj_saldo conta + v) \<and>
      Historico_transacoes (obj_historico (snd (Transacao_registrar transacao conta agora))) =
        Historico_transacoes (obj_historico conta) @
          [\<lparr>reg_tipo = class_name transacao, reg_valor = Transacao_valor transacao,
            reg_data = agora\<rparr>])"
  unfolding registrar_conta
  by (cases transacao) (simp_all add: obj_sacar_sucesso obj_depositar_sucesso)


theorem falha_nada_muda_witness:
  "(\<not> operacao_sucesso (Saque 10) (Conta (Conta_init 1 0)) \<and>
    snd (Transacao_registrar (Saque 10) (Conta (Conta_init 1 0)) ''t'') = Conta (Conta_init 1 0)) \<and>
   (operacao_sucesso (Deposito 10) (Conta (Conta_init 1 0)) \<and>
    obj_saldo (snd (Transacao_registrar (Deposito 10) (Conta (Conta_init 1 0)) ''t'')) = 10 \<and>
    Historico_transacoes (obj_historico
        (snd (Transacao_registrar (Deposito 10) (Conta (Conta_init 1 0)) ''t''))) =
      [\<lparr>reg_tipo = ''Deposito'', reg_valor = 10, reg_data = ''t''\<rparr>])"
  using falha_nada_muda [of "Saque 10" "Conta (Conta_init 1 0)" "''t''"]
    falha_nada_muda [of "Deposito 10" "Conta (Conta_init 1 0)" "''t''"]
  by (simp add: Conta_init_def Historico_init_def Conta_sacar_def Conta_depositar_def)

subsection \<open>The order of the checks in \<open>ContaCorrente.sacar\<close>\<close>

text \<open>
  C3. \<open>ContaCorrente.sacar\<close> checks the ceiling first: an amount above it gets the
  limit line whatever else is wrong. The count of \<open>Saque\<close> records comes second: at or
  above the quota the call gets the quota line whatever the amount and the balance.
  Only then does the call become \<open>Conta.sacar\<close>. So on every account the program can
  reach, an amount above the balance, at or below the ceiling, with quota left, gets
  the insufficient-balance line and not the limit line.
\<close>

theorem ContaCorrente_sacar_ordem:
  fixes c :: conta_corrente
  shows
  "(valor > ContaCorrente_limite c \<longrightarrow>
      ContaCorrente_sacar c valor = (False, [FalhaExcedeLimite], c)) \<and>
   (valor \<le> ContaCorrente_limite c \<and>
    int (length (registros_saque (ContaCorrente c))) \<ge> ContaCorrente_limite_saques c \<longrightarrow>
      ContaCorrente_sacar c valor = (False, [FalhaMaximoSaques], c)) \<and>
   (valor \<le> ContaCorrente_limite c \<and>
    int (length (registros_saque (ContaCorrente c))) < ContaCorrente_limite_saques c \<longrightarrow>
      ContaCorrente_sacar c valor = Conta_sacar c valor) \<and>
   (alcancavel (ContaCorrente c) \<and> valor > Conta_saldo c \<and>
    valor \<le> ContaCorrente_limite c \<and>
    int (length (registros_saque (ContaCorrente c))) < ContaCorrente_limite_saques c \<longrightarrow>
      ContaCorrente_sacar c valor = (False, [FalhaSaldoInsuficiente], c))"
proof -
  have "alcancavel (ContaCorrente c) \<Longrightarrow> 0 \<le> Conta_saldo c"
    using alcancavel_saldo [of "ContaCorrente c"] by simp
  then show ?thesis
    by (auto simp: ContaCorrente_sacar_def Let_def numero_saques_length registros_saque_def
        Conta_sacar_def)
qed

theorem ContaCorrente_sacar_ordem_witness:
  "((600::real) > ContaCorrente_limite ((ContaCorrente_init 1 0 500 0)\<lparr>Conta_saldo := 100\<rparr>) \<and>
    ContaCorrente_sacar ((ContaCorrente_init 1 0 500 0)\<lparr>Conta_saldo := 100\<rparr>) 600 =
      (False, [FalhaExcedeLimite], (ContaCorrente_init 1 0 500 0)\<lparr>Conta_saldo := 100\<rparr>)) \<and>
   ((-5::real) \<le> ContaCorrente_limite (ContaCorrente_init 1 0 500 0) \<and>
    int (length (registros_saque (ContaCorrente (ContaCorrente_init 1 0 500 0))))
      \<ge> ContaCorrente_limite_saques (ContaCorrente_init 1 0 500 0) \<and>
    ContaCorrente_sacar (ContaCorrente_init 1 0 500 0) (-5) =
      (False, [FalhaMaximoSaques], ContaCorrente_init 1 0 500 0)) \<and>
   ((-5::real) \<le> ContaCorrente_limite (ContaCorrente_init 1 0 500 3) \<and>
    int (length (registros_saque (ContaCorrente (ContaCorrente_init 1 0 500 3))))
      < ContaCorrente_limite_saques (ContaCorrente_init 1 0 500 3) \<and>
    ContaCorrente_sacar (ContaCorrente_init 1 0 500 3) (-5) =
      (False, [FalhaValorInvalido], ContaCorrente_init 1 0 500 3)) \<and>
   (alcancavel (ContaCorrente (ContaCorrente_init 1 0 500 3)) \<and>
    (200::real) > Conta_saldo (ContaCorrente_init 1 0 500 3) \<and>
    200 \<le> ContaCorrente_limite (ContaCorrente_init 1 0 500 3) \<and>
    ContaCorrente_sacar (ContaCorrente_init 1 0 500 3) 200 =
      (False, [FalhaSaldoInsuficiente], ContaCorrente_init 1 0 500 3))"
proof -
  have r: "alcancavel (ContaCorrente (ContaCorrente_init 1 0 500 3))"
    by (rule alcancavel.nova_ContaCorrente)
  show ?thesis
    using r
      ContaCorrente_sacar_ordem [of "(ContaCorrente_init 1 0 500 0)\<lparr>Conta_saldo := 100\<rparr>" 600]
      ContaCorrente_sacar_ordem [of "ContaCorrente_init 1 0 500 0" "-5"]
      ContaCorrente_sacar_ordem [of "ContaCorrente_init 1 0 500 3" "-5"]
      ContaCorrente_sacar_ordem [of "ContaCorrente_init 1 0 500 3" 200]
    by (simp add: ContaCorrente_init_def Historico_init_def registros_saque_def Conta_sacar_def)
qed

subsection \<open>The withdrawal quota\<close>









section \<open>Properties of the procedural program\<close>

text \<open>
  C9. In \<open>sacar\<close> of desadio.py the balance test comes first: an amount above the
  balance gets the insufficient-balance line whatever the limit and the count of
  withdrawals are (so also when it exceeds the limit as well), and the balance, the
  statement and the count are returned as they came.
\<close>

theorem sacar_saldo_insuficiente_primeiro:
  assumes "amb_float amb linha = Some valor" and "valor > saldo"
  shows "sacar amb (linha # resto) saldo extrato numero_saques limite LIMITE_SAQUES =
           Inr ((saldo, extrato, numero_saques), [AvisoSaldoInsuficiente], resto)"
  using assms by (simp add: sacar_def input_def)

theorem sacar_saldo_insuficiente_primeiro_witness:
  "amb_float amb_exemplo ''600'' = Some 600 \<and>
   (600::real) > 100 \<and> (600::real) > 500 \<and> (3::int) \<ge> 3 \<and>
   sacar amb_exemplo [''600'', ''0''] 100 ''Saque: R$ 1.00'' 3 500 3 =
     Inr ((100, ''Saque: R$ 1.00'', 3), [AvisoSaldoInsuficiente], [''0''])"
proof -
  have f: "amb_float amb_exemplo ''600'' = Some 600" by (simp add: amb_exemplo_def)
  have g: "(600::real) > 100" by simp
  show ?thesis
    using f sacar_saldo_insuficiente_primeiro [OF f g, of "[''0'']" "''Saque: R$ 1.00''" 3 500 3]
    by simp
qed

section \<open>The menu commands without a definition\<close>

text \<open>
  C4. The commands \<open>nu\<close>, \<open>nc\<close> and \<open>lc\<close> call \<open>criar_cliente\<close>, \<open>criar_conta\<close> and
  \<open>listar_contas\<close>, names the module never binds: in any pass of the loop, and so as
  the first command of a run, each of them ends \<open>main\<close> with a \<open>NameError\<close>; no client
  or account is created and nothing is listed.
\<close>

theorem comandos_sem_definicao:
  "main_passo amb corpos ls (p\<lparr>proc_stdin := ''nu'' # resto\<rparr>) =
     Inl (NameError ''criar_cliente'') \<and>
   main_passo amb corpos ls (p\<lparr>proc_stdin := ''nc'' # resto\<rparr>) =
     Inl (NameError ''criar_conta'') \<and>
   main_passo amb corpos ls (p\<lparr>proc_stdin := ''lc'' # resto\<rparr>) =
     Inl (NameError ''listar_contas'') \<and>
   main amb corpos (p\<lparr>proc_stdin := ''nu'' # resto\<rparr>) = Inl (NameError ''criar_cliente'') \<and>
   main amb corpos (p\<lparr>proc_stdin := ''nc'' # resto\<rparr>) = Inl (NameError ''criar_conta'') \<and>
   main amb corpos (p\<lparr>proc_stdin := ''lc'' # resto\<rparr>) = Inl (NameError ''listar_contas'')"
proof -
  have nu: "main_passo amb corpos ls (p\<lparr>proc_stdin := ''nu'' # resto\<rparr>) =
     Inl (NameError ''criar_cliente'')" for ls
    by (cases ls)
       (simp add: main_passo_def mostrar_menu_def ler_linha_def input_def
          chamar_global_criar_cliente)
  have nc: "main_passo amb corpos ls (p\<lparr>proc_stdin := ''nc'' # resto\<rparr>) =
     Inl (NameError ''criar_conta'')" for ls
    by (cases ls)
       (simp add: main_passo_def mostrar_menu_def ler_linha_def input_def Let_def
          chamar_global_criar_conta)
  have lc: "main_passo amb corpos ls (p\<lparr>proc_stdin := ''lc'' # resto\<rparr>) =
     Inl (NameError ''listar_contas'')" for ls
    by (cases ls)
       (simp add: main_passo_def mostrar_menu_def ler_linha_def input_def
          chamar_global_listar_contas)
  show ?thesis
    by (simp add: main_def nu nc lc)
qed

end
